theory Spec2Isabelle
  imports Complex_Main
begin

section \<open>Enumerations\<close>

text \<open>
  \<^verbatim>\<open>mcp/model_context.py\<close> declares \<^verbatim>\<open>ModelType\<close> and \<^verbatim>\<open>ContextType\<close>,
  \<^verbatim>\<open>ai/model_manager.py\<close> declares \<^verbatim>\<open>ModelStatus\<close>. Each member has a string value;
  calling the enumeration class on a value looks the member up and raises
  \<^verbatim>\<open>ValueError\<close> when there is none. Both enumerations have a member \<^verbatim>\<open>AUDIO\<close>; they
  are written with their qualified names below.
\<close>

datatype ModelType =
  LANGUAGE | VISION | MULTIMODAL | AUDIO | REINFORCEMENT_LEARNING | CUSTOM

datatype ContextType =
  TEXT | IMAGE | AUDIO | NUMERIC | CATEGORICAL | VECTOR | MIXED

datatype ModelStatus =
  INITIALIZING | READY | RUNNING | ERROR | STOPPED

fun ModelType_value :: "ModelType \<Rightarrow> string" where
  "ModelType_value LANGUAGE = ''language''"
| "ModelType_value VISION = ''vision''"
| "ModelType_value MULTIMODAL = ''multimodal''"
| "ModelType_value ModelType.AUDIO = ''audio''"
| "ModelType_value REINFORCEMENT_LEARNING = ''reinforcement_learning''"
| "ModelType_value CUSTOM = ''custom''"

fun ContextType_value :: "ContextType \<Rightarrow> string" where
  "ContextType_value TEXT = ''text''"
| "ContextType_value IMAGE = ''image''"
| "ContextType_value ContextType.AUDIO = ''audio''"
| "ContextType_value NUMERIC = ''numeric''"
| "ContextType_value CATEGORICAL = ''categorical''"
| "ContextType_value VECTOR = ''vector''"
| "ContextType_value MIXED = ''mixed''"

fun ModelStatus_value :: "ModelStatus \<Rightarrow> string" where
  "ModelStatus_value INITIALIZING = ''initializing''"
| "ModelStatus_value READY = ''ready''"
| "ModelStatus_value RUNNING = ''running''"
| "ModelStatus_value ERROR = ''error''"
| "ModelStatus_value STOPPED = ''stopped''"

text \<open>Lookup of a member by its string value; \<open>None\<close> stands for the \<^verbatim>\<open>ValueError\<close>.\<close>

definition ModelType_lookup :: "string \<Rightarrow> ModelType option" where
  "ModelType_lookup s =
     (if s = ''language'' then Some LANGUAGE
      else if s = ''vision'' then Some VISION
      else if s = ''multimodal'' then Some MULTIMODAL
      else if s = ''audio'' then Some ModelType.AUDIO
      else if s = ''reinforcement_learning'' then Some REINFORCEMENT_LEARNING
      else if s = ''custom'' then Some CUSTOM
      else None)"

definition ContextType_lookup :: "string \<Rightarrow> ContextType option" where
  "ContextType_lookup s =
     (if s = ''text'' then Some TEXT
      else if s = ''image'' then Some IMAGE
      else if s = ''audio'' then Some ContextType.AUDIO
      else if s = ''numeric'' then Some NUMERIC
      else if s = ''categorical'' then Some CATEGORICAL
      else if s = ''vector'' then Some VECTOR
      else if s = ''mixed'' then Some MIXED
      else None)"

section \<open>Python values\<close>

text \<open>
  The JSON-compatible values a dictionary produced by \<^verbatim>\<open>to_dict\<close> holds. A Python
  \<^verbatim>\<open>dict\<close> keeps its keys in insertion order, so it is an association list; lookup
  takes the first entry of a key.
\<close>

datatype pyval =
    PyNone
  | PyBool bool
  | PyInt int
  | PyFloat real
  | PyStr string
  | PyList "pyval list"
  | PyDict "(string \<times> pyval) list"

text \<open>Truth value of an object, as \<^verbatim>\<open>if x\<close> tests it.\<close>

fun truthy :: "pyval \<Rightarrow> bool" where
  "truthy PyNone = False"
| "truthy (PyBool b) = b"
| "truthy (PyInt i) = (i \<noteq> 0)"
| "truthy (PyFloat r) = (r \<noteq> 0)"
| "truthy (PyStr s) = (s \<noteq> [])"
| "truthy (PyList xs) = (xs \<noteq> [])"
| "truthy (PyDict d) = (d \<noteq> [])"

text \<open>
  A numeric \<^verbatim>\<open>numpy.ndarray\<close>: a scalar (dimension 0) or a sequence of sub-arrays.
  \<^verbatim>\<open>tolist\<close> turns it into nested Python lists of Python numbers.
\<close>

datatype scalar = IntS int | FloatS real

datatype ndarray = Item scalar | Axis "ndarray list"

fun scalar_item :: "scalar \<Rightarrow> pyval" where
  "scalar_item (IntS i) = PyInt i"
| "scalar_item (FloatS r) = PyFloat r"

fun tolist :: "ndarray \<Rightarrow> pyval" where
  "tolist (Item x) = scalar_item x"
| "tolist (Axis xs) = PyList (map tolist xs)"

text \<open>The payload of a context: a JSON-compatible value or a numeric array.\<close>

datatype payload = Value pyval | NDArray ndarray

text \<open>A nested sequence of numbers: a number, or a list of nested sequences of numbers.\<close>

fun nested_numbers :: "pyval \<Rightarrow> bool" where
  "nested_numbers (PyInt i) = True"
| "nested_numbers (PyFloat r) = True"
| "nested_numbers (PyList xs) = list_all nested_numbers xs"
| "nested_numbers v = False"

subsection \<open>Dictionaries\<close>

definition dict_get :: "('k \<times> 'v) list \<Rightarrow> 'k \<Rightarrow> 'v option" where
  "dict_get d k = map_of d k"

definition dict_contains :: "('k \<times> 'v) list \<Rightarrow> 'k \<Rightarrow> bool" where
  "dict_contains d k = (map_of d k \<noteq> None)"

fun dict_set :: "('k \<times> 'v) list \<Rightarrow> 'k \<Rightarrow> 'v \<Rightarrow> ('k \<times> 'v) list" where
  "dict_set [] k v = [(k, v)]"
| "dict_set ((k', v') # d) k v =
     (if k' = k then (k, v) # d else (k', v') # dict_set d k v)"

definition dict_del :: "('k \<times> 'v) list \<Rightarrow> 'k \<Rightarrow> ('k \<times> 'v) list" where
  "dict_del d k = filter (\<lambda>kv. fst kv \<noteq> k) d"

definition dict_values :: "('k \<times> 'v) list \<Rightarrow> 'v list" where
  "dict_values d = map snd d"

section \<open>Logging\<close>

text \<open>
  Each module logs through \<^verbatim>\<open>logging.getLogger(__name__)\<close>. The records a call emits
  are kept, in order, in the state it returns. \<^verbatim>\<open>logger.exception\<close> logs at level
  \<^verbatim>\<open>ERROR\<close>.
\<close>

datatype log_level = LOG_INFO | LOG_WARNING | LOG_ERROR

type_synonym log_record = "log_level \<times> string"

section \<open>Contexts\<close>

record ModelInfo =
  model_id :: string
  name :: string
  version :: string
  model_type :: ModelType
  description :: string
  supported_context_types :: "ContextType list"
  status :: ModelStatus
  metadata :: "(string \<times> pyval) list option"

record ContextMetadata =
  creation_time :: real
  source :: string
  version :: string
  dimensions :: "int list option"
  content_type :: "string option"
  tags :: "string list"

record 'd ModelContext =
  context_id :: string
  context_type :: ContextType
  data :: 'd
  metadata :: ContextMetadata
  model_type :: "ModelType option"

subsection \<open>Serialisation\<close>

text \<open>
  The failures of \<^verbatim>\<open>from_dict\<close>: \<^verbatim>\<open>KeyError\<close> with the missing key,
  \<^verbatim>\<open>ValueError\<close> with the value that is no member of the enumeration, \<^verbatim>\<open>TypeError\<close>
  when the metadata entry cannot be subscripted by a string. The dataclasses do not check
  their field annotations; \<open>Untyped k\<close> marks a dictionary whose entry \<open>k\<close> has not the
  annotated type, which Python would store as it is and the typed records here cannot
  hold: such dictionaries are outside this model.
\<close>

datatype decode_error = KeyError string | ValueError pyval | TypeError | Untyped string

definition and_then :: "'e + 'a \<Rightarrow> ('a \<Rightarrow> 'e + 'b) \<Rightarrow> 'e + 'b" where
  "and_then r f = (case r of Inl e \<Rightarrow> Inl e | Inr x \<Rightarrow> f x)"

definition subscript :: "(string \<times> pyval) list \<Rightarrow> string \<Rightarrow> decode_error + pyval" where
  "subscript d k = (case dict_get d k of None \<Rightarrow> Inl (KeyError k) | Some v \<Rightarrow> Inr v)"

definition get_default :: "(string \<times> pyval) list \<Rightarrow> string \<Rightarrow> pyval \<Rightarrow> pyval" where
  "get_default d k dflt = (case dict_get d k of None \<Rightarrow> dflt | Some v \<Rightarrow> v)"

fun as_float :: "string \<Rightarrow> pyval \<Rightarrow> decode_error + real" where
  "as_float k (PyFloat r) = Inr r"
| "as_float k v = Inl (Untyped k)"

fun as_str :: "string \<Rightarrow> pyval \<Rightarrow> decode_error + string" where
  "as_str k (PyStr s) = Inr s"
| "as_str k v = Inl (Untyped k)"

fun as_opt_str :: "string \<Rightarrow> pyval \<Rightarrow> decode_error + string option" where
  "as_opt_str k PyNone = Inr None"
| "as_opt_str k (PyStr s) = Inr (Some s)"
| "as_opt_str k v = Inl (Untyped k)"

fun as_list_of :: "(pyval \<Rightarrow> 'a option) \<Rightarrow> pyval list \<Rightarrow> 'a list option" where
  "as_list_of f [] = Some []"
| "as_list_of f (v # vs) =
     (case f v of None \<Rightarrow> None
      | Some x \<Rightarrow> (case as_list_of f vs of None \<Rightarrow> None | Some xs \<Rightarrow> Some (x # xs)))"

fun the_str :: "pyval \<Rightarrow> string option" where
  "the_str (PyStr s) = Some s"
| "the_str v = None"

fun the_int :: "pyval \<Rightarrow> int option" where
  "the_int (PyInt i) = Some i"
| "the_int v = None"

fun as_str_list :: "string \<Rightarrow> pyval \<Rightarrow> decode_error + string list" where
  "as_str_list k (PyList vs) =
     (case as_list_of the_str vs of None \<Rightarrow> Inl (Untyped k) | Some xs \<Rightarrow> Inr xs)"
| "as_str_list k v = Inl (Untyped k)"

fun as_opt_int_list :: "string \<Rightarrow> pyval \<Rightarrow> decode_error + int list option" where
  "as_opt_int_list k PyNone = Inr None"
| "as_opt_int_list k (PyList vs) =
     (case as_list_of the_int vs of None \<Rightarrow> Inl (Untyped k) | Some xs \<Rightarrow> Inr (Some xs))"
| "as_opt_int_list k v = Inl (Untyped k)"

definition ContextMetadata_to_dict :: "ContextMetadata \<Rightarrow> (string \<times> pyval) list" where
  "ContextMetadata_to_dict m =
     [(''creation_time'', PyFloat (creation_time m)),
      (''source'', PyStr (source m)),
      (''version'', PyStr (ContextMetadata.version m)),
      (''dimensions'',
         (case dimensions m of None \<Rightarrow> PyNone | Some ds \<Rightarrow> PyList (map PyInt ds))),
      (''content_type'',
         (case content_type m of None \<Rightarrow> PyNone | Some s \<Rightarrow> PyStr s)),
      (''tags'', PyList (map PyStr (tags m)))]"

definition ContextMetadata_of_entries ::
  "(string \<times> pyval) list \<Rightarrow> decode_error + ContextMetadata" where
  "ContextMetadata_of_entries d =
     and_then (and_then (subscript d ''creation_time'') (as_float ''creation_time'')) (\<lambda>ct.
     and_then (and_then (subscript d ''source'') (as_str ''source'')) (\<lambda>src.
     and_then (and_then (subscript d ''version'') (as_str ''version'')) (\<lambda>ver.
     and_then (as_opt_int_list ''dimensions'' (get_default d ''dimensions'' PyNone)) (\<lambda>dims.
     and_then (as_opt_str ''content_type'' (get_default d ''content_type'' PyNone)) (\<lambda>cty.
     and_then (as_str_list ''tags'' (get_default d ''tags'' (PyList []))) (\<lambda>tgs.
     Inr \<lparr>creation_time = ct, source = src, version = ver,
          dimensions = dims, content_type = cty, tags = tgs\<rparr>))))))"

fun ContextMetadata_from_dict :: "pyval \<Rightarrow> decode_error + ContextMetadata" where
  "ContextMetadata_from_dict (PyDict d) = ContextMetadata_of_entries d"
| "ContextMetadata_from_dict v = Inl TypeError"

text \<open>\<^verbatim>\<open>ContextType(v)\<close> and \<^verbatim>\<open>ModelType(v)\<close> on a value read from a dictionary.\<close>

fun ContextType_call :: "pyval \<Rightarrow> decode_error + ContextType" where
  "ContextType_call (PyStr s) =
     (case ContextType_lookup s of None \<Rightarrow> Inl (ValueError (PyStr s)) | Some t \<Rightarrow> Inr t)"
| "ContextType_call v = Inl (ValueError v)"

fun ModelType_call :: "pyval \<Rightarrow> decode_error + ModelType" where
  "ModelType_call (PyStr s) =
     (case ModelType_lookup s of None \<Rightarrow> Inl (ValueError (PyStr s)) | Some t \<Rightarrow> Inr t)"
| "ModelType_call v = Inl (ValueError v)"

definition ModelContext_to_dict :: "payload ModelContext \<Rightarrow> (string \<times> pyval) list" where
  "ModelContext_to_dict c =
     (let data_serialized = (case data c of NDArray a \<Rightarrow> tolist a | Value v \<Rightarrow> v)
      in [(''context_id'', PyStr (context_id c)),
          (''context_type'', PyStr (ContextType_value (context_type c))),
          (''data'', data_serialized),
          (''metadata'', PyDict (ContextMetadata_to_dict (ModelContext.metadata c))),
          (''model_type'',
             (case ModelContext.model_type c of
                Some t \<Rightarrow> PyStr (ModelType_value t) | None \<Rightarrow> PyNone))])"

definition ModelContext_from_dict ::
  "(string \<times> pyval) list \<Rightarrow> decode_error + payload ModelContext" where
  "ModelContext_from_dict d =
     and_then (and_then (subscript d ''context_type'') ContextType_call) (\<lambda>ctype.
     and_then (if truthy (get_default d ''model_type'' PyNone)
               then and_then (subscript d ''model_type'')
                      (\<lambda>v. and_then (ModelType_call v) (\<lambda>t. Inr (Some t)))
               else Inr None) (\<lambda>mtype.
     and_then (and_then (subscript d ''metadata'') ContextMetadata_from_dict) (\<lambda>md.
     and_then (and_then (subscript d ''context_id'') (as_str ''context_id'')) (\<lambda>cid.
     and_then (subscript d ''data'') (\<lambda>dat.
     Inr \<lparr>context_id = cid, context_type = ctype, data = Value dat,
          metadata = md, model_type = mtype\<rparr>)))))"

subsection \<open>The context registry\<close>

text \<open>
  \<^verbatim>\<open>ContextRegistry\<close> owns the dictionary \<^verbatim>\<open>_contexts\<close>; the records its methods log
  are collected in \<open>reg_log\<close>. The registry never inspects a payload, so the payload type
  is a parameter.
\<close>

record 'd ContextRegistry =
  contexts :: "(string \<times> 'd ModelContext) list"
  reg_log :: "log_record list"

definition ContextRegistry_init :: "'d ContextRegistry" where
  "ContextRegistry_init = \<lparr>contexts = [], reg_log = []\<rparr>"

definition ContextRegistry_register ::
  "'d ModelContext \<Rightarrow> 'd ContextRegistry \<Rightarrow> 'd ContextRegistry" where
  "ContextRegistry_register c r =
     (let r1 = (if dict_contains (contexts r) (context_id c)
                then r\<lparr>reg_log := reg_log r @
                       [(LOG_WARNING,
                         ''Context with ID '' @ context_id c @ '' already exists. Overwriting.'')]\<rparr>
                else r)
      in r1\<lparr>contexts := dict_set (contexts r1) (context_id c) c\<rparr>)"

definition ContextRegistry_get :: "'d ContextRegistry \<Rightarrow> string \<Rightarrow> 'd ModelContext option" where
  "ContextRegistry_get r k = dict_get (contexts r) k"

definition ContextRegistry_list ::
  "ContextType option \<Rightarrow> ModelType option \<Rightarrow> 'd ContextRegistry \<Rightarrow> 'd ModelContext list" where
  "ContextRegistry_list ctype mtype r =
     (let results = dict_values (contexts r);
          results1 = (case ctype of None \<Rightarrow> results
                      | Some t \<Rightarrow> filter (\<lambda>ctx. context_type ctx = t) results)
      in (case mtype of None \<Rightarrow> results1
          | Some t \<Rightarrow> filter (\<lambda>ctx. ModelContext.model_type ctx = Some t) results1))"

definition ContextRegistry_delete ::
  "string \<Rightarrow> 'd ContextRegistry \<Rightarrow> bool \<times> 'd ContextRegistry" where
  "ContextRegistry_delete k r =
     (if dict_contains (contexts r) k
      then (True, r\<lparr>contexts := dict_del (contexts r) k\<rparr>)
      else (False, r))"

section \<open>Models and the model manager\<close>

text \<open>
  Python objects are shared by reference: a model holds a reference to its
  \<^verbatim>\<open>ModelInfo\<close>, the manager's dictionary holds references to models, and
  \<^verbatim>\<open>list_models\<close> hands \<^verbatim>\<open>ModelInfo\<close> references out. The store therefore maps
  addresses to objects. An object is never freed while it is referenced, so the two heaps
  are total functions; \<open>models\<close> is the manager's dictionary \<^verbatim>\<open>_models\<close>, and \<open>logged\<close>
  collects the log records.
\<close>

type_synonym ref = nat

record AIModel =
  model_info :: ref
  last_run_time :: real

record world =
  models :: "(string \<times> ref) list"
  model_heap :: "ref \<Rightarrow> AIModel"
  info_heap :: "ref \<Rightarrow> ModelInfo"
  logged :: "log_record list"

text \<open>
  An exception of class \<^verbatim>\<open>Exception\<close>, with the text \<^verbatim>\<open>str(e)\<close> gives. Signals
  outside \<^verbatim>\<open>Exception\<close> (\<^verbatim>\<open>KeyboardInterrupt\<close>, \<^verbatim>\<open>SystemExit\<close>) are not failures of
  a model and are not modelled.
\<close>

datatype py_exception = PyException (exc_class: string) (exc_str: string)

text \<open>
  \<^verbatim>\<open>initialize\<close> and \<^verbatim>\<open>run\<close> are abstract in \<^verbatim>\<open>AIModel\<close>. An implementation is
  any function of the receiver and the store that returns or raises, and leaves a store.
\<close>

type_synonym initialize_method = "ref \<Rightarrow> world \<Rightarrow> (py_exception + bool) \<times> world"

type_synonym 'd run_method =
  "ref \<Rightarrow> 'd ModelContext \<Rightarrow> world \<Rightarrow> (py_exception + 'd ModelContext) \<times> world"

definition emit :: "log_level \<Rightarrow> string \<Rightarrow> world \<Rightarrow> world" where
  "emit lvl msg w = w\<lparr>logged := logged w @ [(lvl, msg)]\<rparr>"

subsection \<open>\<^verbatim>\<open>AIModel\<close>\<close>

text \<open>The attribute assignment \<^verbatim>\<open>info.status = v\<close> on the \<^verbatim>\<open>ModelInfo\<close> at address \<open>i\<close>.\<close>

definition ModelInfo_set_status :: "ref \<Rightarrow> ModelStatus \<Rightarrow> world \<Rightarrow> world" where
  "ModelInfo_set_status i v w =
     w\<lparr>info_heap := (info_heap w)(i := (info_heap w i)\<lparr>status := v\<rparr>)\<rparr>"

definition AIModel_init :: "ref \<Rightarrow> ref \<Rightarrow> world \<Rightarrow> world" where
  "AIModel_init self info w =
     w\<lparr>model_heap := (model_heap w)(self := \<lparr>model_info = info, last_run_time = 0\<rparr>)\<rparr>"

definition AIModel_model_info :: "world \<Rightarrow> ref \<Rightarrow> ModelInfo" where
  "AIModel_model_info w self = info_heap w (model_info (model_heap w self))"

definition AIModel_model_id :: "world \<Rightarrow> ref \<Rightarrow> string" where
  "AIModel_model_id w self = model_id (AIModel_model_info w self)"

definition AIModel_status :: "world \<Rightarrow> ref \<Rightarrow> ModelStatus" where
  "AIModel_status w self = status (AIModel_model_info w self)"

definition AIModel_set_status :: "ref \<Rightarrow> ModelStatus \<Rightarrow> world \<Rightarrow> world" where
  "AIModel_set_status self v w = ModelInfo_set_status (model_info (model_heap w self)) v w"

definition AIModel_last_run_time :: "world \<Rightarrow> ref \<Rightarrow> real" where
  "AIModel_last_run_time w self = last_run_time (model_heap w self)"

text \<open>\<open>now\<close> is the value \<^verbatim>\<open>time.time()\<close> returns at the call.\<close>

definition update_last_run_time :: "real \<Rightarrow> ref \<Rightarrow> world \<Rightarrow> world" where
  "update_last_run_time now self w =
     w\<lparr>model_heap := (model_heap w)(self := (model_heap w self)\<lparr>last_run_time := now\<rparr>)\<rparr>"

definition supports_context_type :: "world \<Rightarrow> ref \<Rightarrow> ContextType \<Rightarrow> bool" where
  "supports_context_type w self t =
     (t \<in> set (supported_context_types (AIModel_model_info w self)))"

subsection \<open>\<^verbatim>\<open>ModelManager\<close>\<close>

definition register_model :: "ref \<Rightarrow> world \<Rightarrow> bool \<times> world" where
  "register_model model w =
     (if dict_contains (models w) (AIModel_model_id w model)
      then (False,
            emit LOG_WARNING
              (''Model with ID '' @ AIModel_model_id w model @ '' already exists.'') w)
      else (True, w\<lparr>models := dict_set (models w) (AIModel_model_id w model) model\<rparr>))"

definition initialize_model :: "initialize_method \<Rightarrow> string \<Rightarrow> world \<Rightarrow> bool \<times> world" where
  "initialize_model initialize mid w =
     (case dict_get (models w) mid of
        None \<Rightarrow> (False, emit LOG_ERROR (''Model with ID '' @ mid @ '' not found.'') w)
      | Some model \<Rightarrow>
          (case initialize model w of
             (Inr success, w1) \<Rightarrow>
               (success, AIModel_set_status model (if success then READY else ERROR) w1)
           | (Inl e, w1) \<Rightarrow>
               (False,
                AIModel_set_status model ERROR
                  (emit LOG_ERROR
                     (''Error initializing model '' @ mid @ '': '' @ exc_str e) w1))))"

definition run_model ::
  "'d run_method \<Rightarrow> real \<Rightarrow> string \<Rightarrow> 'd ModelContext \<Rightarrow> world
     \<Rightarrow> 'd ModelContext option \<times> world" where
  "run_model run now mid ctx w =
     (case dict_get (models w) mid of
        None \<Rightarrow> (None, emit LOG_ERROR (''Model with ID '' @ mid @ '' not found.'') w)
      | Some model \<Rightarrow>
          if AIModel_status w model \<noteq> READY
          then (None,
                emit LOG_ERROR
                  (''Model '' @ mid @ '' is not ready. Current status: ''
                     @ ModelStatus_value (AIModel_status w model)) w)
          else if \<not> supports_context_type w model (context_type ctx)
          then (None,
                emit LOG_ERROR
                  (''Model '' @ mid @ '' does not support context type ''
                     @ ContextType_value (context_type ctx)) w)
          else
            (case run model ctx (AIModel_set_status model RUNNING w) of
               (Inr result, w1) \<Rightarrow>
                 (Some result,
                  update_last_run_time now model (AIModel_set_status model READY w1))
             | (Inl e, w1) \<Rightarrow>
                 (None,
                  AIModel_set_status model ERROR
                    (emit LOG_ERROR
                       (''Error running model '' @ mid @ '': '' @ exc_str e) w1))))"

definition get_model :: "string \<Rightarrow> world \<Rightarrow> ref option" where
  "get_model mid w = dict_get (models w) mid"

text \<open>The result lists the references \<^verbatim>\<open>m.model_info\<close> of the selected models.\<close>

definition list_models :: "ModelType option \<Rightarrow> world \<Rightarrow> ref list" where
  "list_models mtype w =
     (let ms = dict_values (models w);
          ms1 = (case mtype of
                   None \<Rightarrow> ms
                 | Some t \<Rightarrow>
                     filter (\<lambda>m. ModelInfo.model_type (AIModel_model_info w m) = t) ms)
      in map (\<lambda>m. model_info (model_heap w m)) ms1)"

definition unregister_model :: "string \<Rightarrow> world \<Rightarrow> bool \<times> world" where
  "unregister_model mid w =
     (if dict_contains (models w) mid
      then (True, w\<lparr>models := dict_del (models w) mid\<rparr>)
      else (False, w))"

subsection \<open>\<^verbatim>\<open>LanguageModel\<close>\<close>

text \<open>
  \<^verbatim>\<open>LanguageModel.run\<close> on a text payload. \<open>model_name\<close> is the field of that name;
  \<open>backend\<close> is \<open>None\<close> when \<^verbatim>\<open>not TRANSFORMERS_AVAILABLE or self.model is None\<close> (the
  mock path) and otherwise the tokenizer and the loaded network as one function of the
  input text, which may raise; \<open>now\<close> is the value of \<^verbatim>\<open>time.time()\<close> when the output
  metadata is built. A \<open>char\<close> stands for one code point of the Python string.
\<close>

definition LanguageModel_output ::
  "string \<Rightarrow> real \<Rightarrow> string ModelContext \<Rightarrow> string \<Rightarrow> string ModelContext" where
  "LanguageModel_output model_name now ctx output_text =
     \<lparr>context_id = context_id ctx @ ''_response'',
      context_type = TEXT,
      data = output_text,
      metadata =
        \<lparr>creation_time = now,
         source = ''language_model:'' @ model_name,
         version = ''1.0'',
         dimensions = None,
         content_type = Some ''text/plain'',
         tags = [''generated'', ''language-model'']\<rparr>,
      model_type = Some LANGUAGE\<rparr>"

definition LanguageModel_run ::
  "string \<Rightarrow> (string \<Rightarrow> py_exception + string) option \<Rightarrow> real \<Rightarrow> string run_method" where
  "LanguageModel_run model_name backend now self ctx w =
     (if context_type ctx \<noteq> TEXT
      then (Inl (PyException ''ValueError''
                   (''Unsupported context type: '' @ ContextType_value (context_type ctx))),
            w)
      else
        (let input_text = data ctx;
             w1 = emit LOG_INFO
                    (''Running language model on input: '' @ take 50 input_text @ ''...'') w
         in (case backend of
               None \<Rightarrow>
                 (Inr (LanguageModel_output model_name now ctx
                         (''Response to: '' @ take 20 input_text @ ''... (mock output)'')),
                  emit LOG_WARNING ''Using mock language model generation.'' w1)
             | Some generate \<Rightarrow>
                 (case generate input_text of
                    Inl e \<Rightarrow> (Inl e, w1)
                  | Inr output_text \<Rightarrow>
                      (Inr (LanguageModel_output model_name now ctx output_text), w1)))))"

text \<open>
  The \<^verbatim>\<open>ModelInfo\<close> that \<^verbatim>\<open>create_default_language_model\<close> builds, and a store in
  which that model has been constructed (the object at address 10, with its
  \<^verbatim>\<open>ModelInfo\<close> at address 20) and then registered in a fresh manager.
\<close>

definition default_language_model_info :: "string \<Rightarrow> ModelInfo" where
  "default_language_model_info mid =
     \<lparr>model_id = mid,
      name = ''GPT-2 Language Model'',
      ModelInfo.version = ''1.0'',
      ModelInfo.model_type = LANGUAGE,
      description = ''A transformer-based language model for text generation'',
      supported_context_types = [TEXT],
      status = INITIALIZING,
      ModelInfo.metadata =
        Some [(''model_architecture'', PyStr ''transformer''),
              (''parameters'', PyStr ''124M''),
              (''training_data'', PyStr ''web text'')]\<rparr>"

definition fresh_world :: world where
  "fresh_world =
     \<lparr>models = [],
      model_heap = (\<lambda>a. \<lparr>model_info = 0, last_run_time = 0\<rparr>),
      info_heap = (\<lambda>a. default_language_model_info []),
      logged = []\<rparr>"

definition constructed_world :: world where
  "constructed_world =
     AIModel_init 10 20
       (fresh_world\<lparr>info_heap := (info_heap fresh_world)
                       (20 := default_language_model_info ''default_language_model'')\<rparr>)"

definition example_world :: world where
  "example_world = snd (register_model 10 constructed_world)"

text \<open>
  The same store with a second model constructed (the object at address 11, its
  \<^verbatim>\<open>ModelInfo\<close> at address 21) that carries the same \<^verbatim>\<open>model_id\<close> and is not registered.
\<close>

definition duplicate_world :: world where
  "duplicate_world =
     AIModel_init 11 21
       (example_world\<lparr>info_heap := (info_heap example_world)
                         (21 := default_language_model_info ''default_language_model'')\<rparr>)"

text \<open>
  \<^verbatim>\<open>LanguageModel.initialize\<close>: \<open>loading\<close> is \<open>None\<close> when the transformers library is
  not available, and otherwise says whether loading the tokenizer and the network raised.
\<close>

definition LanguageModel_initialize ::
  "string \<Rightarrow> (py_exception + unit) option \<Rightarrow> initialize_method" where
  "LanguageModel_initialize model_name loading self w =
     (case loading of
        None \<Rightarrow> (Inr True, emit LOG_WARNING ''Using mock language model implementation.'' w)
      | Some r \<Rightarrow>
          (let w1 = emit LOG_INFO (''Loading language model '' @ model_name) w
           in (case r of
                 Inr u \<Rightarrow> (Inr True, w1)
               | Inl e \<Rightarrow>
                   (Inr False,
                    emit LOG_ERROR (''Error loading language model: '' @ exc_str e) w1))))"

text \<open>The example store after the model has been initialised on the mock path.\<close>

definition ready_world :: world where
  "ready_world =
     snd (initialize_model (LanguageModel_initialize ''gpt2'' None)
            ''default_language_model'' example_world)"

definition text_context :: "string ModelContext" where
  "text_context =
     \<lparr>context_id = ''input'',
      context_type = TEXT,
      data = ''Hello'',
      metadata =
        \<lparr>creation_time = 1, source = ''user_input'', version = ''1.0'',
         dimensions = None, content_type = Some ''text/plain'', tags = [''input'']\<rparr>,
      model_type = Some LANGUAGE\<rparr>"

definition image_context :: "string ModelContext" where
  "image_context = text_context\<lparr>context_id := ''picture'', context_type := IMAGE\<rparr>"



section \<open>Properties of the serialisation\<close>

lemma ContextType_lookup_value: "ContextType_lookup (ContextType_value t) = Some t"
  by (cases t) (simp_all add: ContextType_lookup_def)

lemma ModelType_lookup_value: "ModelType_lookup (ModelType_value t) = Some t"
  by (cases t) (simp_all add: ModelType_lookup_def)

lemma ModelType_value_nonempty: "ModelType_value t \<noteq> []"
  by (cases t) simp_all

lemma as_list_of_the_str: "as_list_of the_str (map PyStr xs) = Some xs"
  by (induction xs) simp_all

lemma as_list_of_the_int: "as_list_of the_int (map PyInt xs) = Some xs"
  by (induction xs) simp_all

lemma nested_numbers_tolist: "nested_numbers (tolist a)"
proof (induction a)
  case (Item x)
  then show ?case by (cases x) simp_all
next
  case (Axis xs)
  then show ?case by (simp add: list_all_iff)
qed

lemma ContextMetadata_roundtrip:
  "ContextMetadata_of_entries (ContextMetadata_to_dict m) = Inr m"
  by (cases m)
     (simp add: ContextMetadata_of_entries_def ContextMetadata_to_dict_def and_then_def
        subscript_def get_default_def dict_get_def as_list_of_the_str as_list_of_the_int
        split: option.splits)

text \<open>
  Claim C5. For every context \<open>c\<close>, \<^verbatim>\<open>from_dict(c.to_dict())\<close> succeeds and yields \<open>c\<close>
  itself, field by field (\<open>context_id\<close>, \<open>context_type\<close>, \<open>model_type\<close> and the whole
  metadata record), except that the payload is the serialised one: a JSON-compatible value
  is kept as it is, and a numeric array \<open>a\<close> comes back as \<open>tolist a\<close>, which is a nested
  sequence of numbers.
\<close>

theorem from_dict_to_dict_roundtrip:
  "ModelContext_from_dict (ModelContext_to_dict c) =
     Inr (c\<lparr>data := Value (case data c of Value v \<Rightarrow> v | NDArray a \<Rightarrow> tolist a)\<rparr>)
   \<and> nested_numbers (tolist a)"
proof -
  have "ModelContext_from_dict (ModelContext_to_dict c) =
     Inr (c\<lparr>data := Value (case data c of Value v \<Rightarrow> v | NDArray a \<Rightarrow> tolist a)\<rparr>)"
    by (cases c)
       (simp add: ModelContext_from_dict_def ModelContext_to_dict_def and_then_def
          subscript_def get_default_def dict_get_def ContextMetadata_roundtrip
          ContextType_lookup_value ModelType_lookup_value ModelType_value_nonempty
          split: option.splits payload.splits)
  then show ?thesis
    by (simp add: nested_numbers_tolist)
qed

section \<open>Properties of dictionaries and of the store\<close>

lemma dict_get_dict_set_same: "dict_get (dict_set d k v) k = Some v"
  by (induction d) (auto simp: dict_get_def)

lemma dict_get_dict_set_other: "k' \<noteq> k \<Longrightarrow> dict_get (dict_set d k v) k' = dict_get d k'"
  by (induction d) (auto simp: dict_get_def)

lemma dict_keys_dict_set: "dict_contains d k \<Longrightarrow> map fst (dict_set d k v) = map fst d"
  by (induction d) (auto simp: dict_contains_def)

lemma dict_contains_dict_set: "dict_contains (dict_set d k v) k"
  using dict_get_dict_set_same [of d k v] by (simp add: dict_contains_def dict_get_def)

lemma status_set_status [simp]: "AIModel_status (AIModel_set_status m v w) m = v"
  by (simp add: AIModel_status_def AIModel_set_status_def ModelInfo_set_status_def
      AIModel_model_info_def)

lemma status_update_last_run_time [simp]:
  "AIModel_status (update_last_run_time now m w) m' = AIModel_status w m'"
  by (simp add: AIModel_status_def update_last_run_time_def AIModel_model_info_def)

lemma status_emit [simp]: "AIModel_status (emit lvl msg w) m = AIModel_status w m"
  by (simp add: AIModel_status_def AIModel_model_info_def emit_def)

lemma last_run_time_update [simp]:
  "AIModel_last_run_time (update_last_run_time now m w) m = now"
  by (simp add: AIModel_last_run_time_def update_last_run_time_def)


lemma last_run_time_set_status [simp]:
  "AIModel_last_run_time (AIModel_set_status m v w) r = AIModel_last_run_time w r"
  by (simp add: AIModel_last_run_time_def AIModel_set_status_def ModelInfo_set_status_def)

lemma last_run_time_emit [simp]:
  "AIModel_last_run_time (emit lvl msg w) r = AIModel_last_run_time w r"
  by (simp add: AIModel_last_run_time_def emit_def)

lemma emit_frame [simp]:
  "models (emit lvl msg w) = models w"
  "model_heap (emit lvl msg w) = model_heap w"
  "info_heap (emit lvl msg w) = info_heap w"
  "logged (emit lvl msg w) = logged w @ [(lvl, msg)]"
  by (simp_all add: emit_def)

lemma constructed_world_simps:
  "models constructed_world = []"
  "model_heap constructed_world 10 = \<lparr>model_info = 20, last_run_time = 0\<rparr>"
  "info_heap constructed_world 20 = default_language_model_info ''default_language_model''"
  by (simp_all add: constructed_world_def AIModel_init_def fresh_world_def)

lemma example_world_simps:
  "models example_world = [(''default_language_model'', 10)]"
  "model_heap example_world 10 = \<lparr>model_info = 20, last_run_time = 0\<rparr>"
  "info_heap example_world 20 = default_language_model_info ''default_language_model''"
  by (simp_all add: example_world_def constructed_world_def register_model_def
      AIModel_init_def fresh_world_def
      AIModel_model_id_def AIModel_model_info_def default_language_model_info_def
      dict_contains_def)

lemma duplicate_world_simps:
  "models duplicate_world = [(''default_language_model'', 10)]"
  "model_heap duplicate_world 10 = \<lparr>model_info = 20, last_run_time = 0\<rparr>"
  "model_heap duplicate_world 11 = \<lparr>model_info = 21, last_run_time = 0\<rparr>"
  "info_heap duplicate_world 20 = default_language_model_info ''default_language_model''"
  "info_heap duplicate_world 21 = default_language_model_info ''default_language_model''"
  by (simp_all add: duplicate_world_def AIModel_init_def example_world_simps)

lemma ready_world_simps:
  "models ready_world = [(''default_language_model'', 10)]"
  "model_heap ready_world 10 = \<lparr>model_info = 20, last_run_time = 0\<rparr>"
  "info_heap ready_world 20 =
     (default_language_model_info ''default_language_model'')\<lparr>status := READY\<rparr>"
  by (simp_all add: ready_world_def initialize_model_def LanguageModel_initialize_def
      example_world_simps dict_get_def AIModel_set_status_def ModelInfo_set_status_def
      emit_def)

section \<open>Properties of the context registry\<close>

lemma registry_contexts_register:
  "contexts (ContextRegistry_register c r) = dict_set (contexts r) (context_id c) c"
  by (simp add: ContextRegistry_register_def Let_def)

lemma registry_log_register:
  "reg_log (ContextRegistry_register c r) =
     (if dict_contains (contexts r) (context_id c)
      then reg_log r @
        [(LOG_WARNING, ''Context with ID '' @ context_id c @ '' already exists. Overwriting.'')]
      else reg_log r)"
  by (simp add: ContextRegistry_register_def Let_def)

text \<open>
  Claim C8. Let \<open>c1\<close> and \<open>c2\<close> have the same \<^verbatim>\<open>context_id\<close>. After registering \<open>c1\<close> and
  then \<open>c2\<close>, \<^verbatim>\<open>get\<close> with that id returns \<open>c2\<close> and every other id returns what it
  returned before; the second registration adds no key, and it logs exactly one record,
  at level \<^verbatim>\<open>WARNING\<close>.
\<close>

theorem registry_last_write_wins:
  assumes "context_id c1 = context_id c2"
  shows "ContextRegistry_get (ContextRegistry_register c2 (ContextRegistry_register c1 r)) k =
      (if k = context_id c2 then Some c2 else ContextRegistry_get r k) \<and>
    reg_log (ContextRegistry_register c2 (ContextRegistry_register c1 r)) =
      reg_log (ContextRegistry_register c1 r) @
        [(LOG_WARNING,
          ''Context with ID '' @ context_id c2 @ '' already exists. Overwriting.'')] \<and>
    map fst (contexts (ContextRegistry_register c2 (ContextRegistry_register c1 r))) =
      map fst (contexts (ContextRegistry_register c1 r))"
proof -
  let ?r1 = "ContextRegistry_register c1 r"
  have present: "dict_contains (contexts ?r1) (context_id c2)"
    using assms by (simp add: registry_contexts_register dict_contains_dict_set)
  have "ContextRegistry_get (ContextRegistry_register c2 ?r1) k =
      (if k = context_id c2 then Some c2 else ContextRegistry_get r k)"
    using assms
    by (simp add: ContextRegistry_get_def registry_contexts_register
        dict_get_dict_set_same dict_get_dict_set_other)
  moreover have "reg_log (ContextRegistry_register c2 ?r1) =
      reg_log ?r1 @
        [(LOG_WARNING,
          ''Context with ID '' @ context_id c2 @ '' already exists. Overwriting.'')]"
    using present by (simp add: registry_log_register)
  moreover have "map fst (contexts (ContextRegistry_register c2 ?r1)) =
      map fst (contexts ?r1)"
    using present by (simp add: registry_contexts_register [of c2] dict_keys_dict_set)
  ultimately show ?thesis by simp
qed

text \<open>
  The theorem at two text contexts with the id \<^verbatim>\<open>input\<close> in an empty registry.
\<close>

theorem registry_last_write_wins_witness:
  "context_id text_context = context_id (text_context\<lparr>data := ''Second''\<rparr>) \<and>
   ContextRegistry_get
     (ContextRegistry_register (text_context\<lparr>data := ''Second''\<rparr>)
        (ContextRegistry_register text_context ContextRegistry_init)) ''input'' =
     Some (text_context\<lparr>data := ''Second''\<rparr>) \<and>
   reg_log
     (ContextRegistry_register (text_context\<lparr>data := ''Second''\<rparr>)
        (ContextRegistry_register text_context ContextRegistry_init)) =
     [(LOG_WARNING, ''Context with ID input already exists. Overwriting.'')]"
proof -
  have a: "context_id text_context = context_id (text_context\<lparr>data := ''Second''\<rparr>)"
    by simp
  have l: "reg_log (ContextRegistry_register text_context ContextRegistry_init) = []"
    by (simp add: registry_log_register ContextRegistry_init_def dict_contains_def)
  have i: "context_id text_context = ''input''"
    by (simp add: text_context_def)
  show ?thesis
    using registry_last_write_wins [OF a, of ContextRegistry_init "''input''"] l i
    by simp
qed

section \<open>Properties of the model manager\<close>

subsection \<open>Registration\<close>

text \<open>
  Claim C7. Let the \<^verbatim>\<open>model_id\<close> of \<open>m\<close> not be registered. Then \<^verbatim>\<open>register_model\<close>
  returns \<^verbatim>\<open>True\<close>, a following \<^verbatim>\<open>get_model\<close> with that id returns the reference \<open>m\<close>,
  and both heaps, so the status of \<open>m\<close>, are unchanged.
\<close>

theorem register_model_fresh:
  assumes "get_model (AIModel_model_id w m) w = None"
  shows "fst (register_model m w) = True \<and>
    get_model (AIModel_model_id w m) (snd (register_model m w)) = Some m \<and>
    AIModel_status (snd (register_model m w)) m = AIModel_status w m \<and>
    model_heap (snd (register_model m w)) = model_heap w \<and>
    info_heap (snd (register_model m w)) = info_heap w"
  using assms
  by (simp add: register_model_def dict_contains_def dict_get_def get_model_def
      dict_get_dict_set_same [unfolded dict_get_def] AIModel_status_def AIModel_model_info_def)

text \<open>
  Claim C7 at the constructed default language model and a fresh manager.
\<close>

theorem register_model_fresh_witness:
  "get_model (AIModel_model_id constructed_world 10) constructed_world = None \<and>
   AIModel_model_id constructed_world 10 = ''default_language_model'' \<and>
   fst (register_model 10 constructed_world) = True \<and>
   get_model ''default_language_model'' (snd (register_model 10 constructed_world)) = Some 10 \<and>
   AIModel_status (snd (register_model 10 constructed_world)) 10 = INITIALIZING"
proof -
  have i: "AIModel_model_id constructed_world 10 = ''default_language_model''"
    by (simp add: AIModel_model_id_def AIModel_model_info_def constructed_world_simps
        default_language_model_info_def)
  have a: "get_model (AIModel_model_id constructed_world 10) constructed_world = None"
    by (simp add: get_model_def dict_get_def constructed_world_simps)
  have s: "AIModel_status constructed_world 10 = INITIALIZING"
    by (simp add: AIModel_status_def AIModel_model_info_def constructed_world_simps
        default_language_model_info_def)
  show ?thesis
    using register_model_fresh [OF a] a i s by simp
qed

text \<open>
  Claim C6. Let \<open>m1\<close> be registered under \<open>mid\<close>, and let \<open>m2\<close> be a model whose
  \<^verbatim>\<open>model_id\<close> is \<open>mid\<close>. Then \<^verbatim>\<open>register_model\<close> of \<open>m2\<close> returns \<^verbatim>\<open>False\<close>, a
  following \<^verbatim>\<open>get_model\<close> returns the reference \<open>m1\<close>, and the dictionary and both heaps
  (so the object \<open>m1\<close> and its \<^verbatim>\<open>ModelInfo\<close>) are unchanged; one warning is logged.
\<close>

theorem register_model_duplicate:
  assumes "dict_get (models w) mid = Some m1"
    and "AIModel_model_id w m2 = mid"
  shows "fst (register_model m2 w) = False \<and>
    get_model mid (snd (register_model m2 w)) = Some m1 \<and>
    models (snd (register_model m2 w)) = models w \<and>
    model_heap (snd (register_model m2 w)) = model_heap w \<and>
    info_heap (snd (register_model m2 w)) = info_heap w \<and>
    logged (snd (register_model m2 w)) =
      logged w @ [(LOG_WARNING, ''Model with ID '' @ mid @ '' already exists.'')]"
  using assms by (simp add: register_model_def dict_contains_def dict_get_def get_model_def)

text \<open>
  Claim C6 at the example store: a second default language model cannot be registered.
\<close>

theorem register_model_duplicate_witness:
  "dict_get (models duplicate_world) ''default_language_model'' = Some 10 \<and>
   AIModel_model_id duplicate_world 11 = ''default_language_model'' \<and>
   fst (register_model 11 duplicate_world) = False \<and>
   get_model ''default_language_model'' (snd (register_model 11 duplicate_world)) = Some 10"
proof -
  have a: "dict_get (models duplicate_world) ''default_language_model'' = Some 10"
    by (simp add: duplicate_world_simps dict_get_def)
  have b: "AIModel_model_id duplicate_world 11 = ''default_language_model''"
    by (simp add: AIModel_model_id_def AIModel_model_info_def duplicate_world_simps
        default_language_model_info_def)
  show ?thesis
    using register_model_duplicate [OF a b] a b by simp
qed

subsection \<open>Initialisation\<close>

text \<open>
  Claim C4. When \<open>mid\<close> is not registered, \<^verbatim>\<open>initialize_model\<close> returns \<^verbatim>\<open>False\<close> and
  leaves the manager's dictionary and both heaps as they were (it logs one error record).
  When \<open>mid\<close> is registered for \<open>m\<close>: if \<^verbatim>\<open>initialize\<close> raises, the result is \<^verbatim>\<open>False\<close>
  and the status of \<open>m\<close> is \<open>ERROR\<close>; if it returns \<^verbatim>\<open>True\<close>, the result is \<^verbatim>\<open>True\<close> and
  the status is \<open>READY\<close>; if it returns \<^verbatim>\<open>False\<close>, the result is \<^verbatim>\<open>False\<close> and the
  status is \<open>ERROR\<close>.
\<close>

theorem initialize_model_outcomes:
  "(case dict_get (models w) mid of
      None \<Rightarrow>
        fst (initialize_model init mid w) = False \<and>
        models (snd (initialize_model init mid w)) = models w \<and>
        model_heap (snd (initialize_model init mid w)) = model_heap w \<and>
        info_heap (snd (initialize_model init mid w)) = info_heap w \<and>
        logged (snd (initialize_model init mid w)) =
          logged w @ [(LOG_ERROR, ''Model with ID '' @ mid @ '' not found.'')]
    | Some m \<Rightarrow>
        (case init m w of
           (Inl e, w1) \<Rightarrow>
             fst (initialize_model init mid w) = False \<and>
             AIModel_status (snd (initialize_model init mid w)) m = ERROR
         | (Inr success, w1) \<Rightarrow>
             fst (initialize_model init mid w) = success \<and>
             AIModel_status (snd (initialize_model init mid w)) m =
               (if success then READY else ERROR)))"
  by (simp add: initialize_model_def split: option.splits prod.splits sum.splits)

subsection \<open>Running a model\<close>

text \<open>
  Claim C1. Let \<open>m\<close> be registered under \<open>mid\<close>, with status \<open>READY\<close> and supporting the
  type of the context. Then \<^verbatim>\<open>run_model\<close> calls \<^verbatim>\<open>run\<close> on the context in a store where
  the status of \<open>m\<close> is \<open>RUNNING\<close>. When \<^verbatim>\<open>run\<close> returns a context, \<^verbatim>\<open>run_model\<close>
  returns that context, the status of \<open>m\<close> is \<open>READY\<close> and its last-run time is \<open>now\<close>; when
  \<^verbatim>\<open>run\<close> raises, \<^verbatim>\<open>run_model\<close> returns \<^verbatim>\<open>None\<close> and the status of \<open>m\<close> is \<open>ERROR\<close>.
\<close>

theorem run_model_ready:
  assumes "dict_get (models w) mid = Some m"
    and "AIModel_status w m = READY"
    and "supports_context_type w m (context_type ctx)"
  shows "AIModel_status (AIModel_set_status m RUNNING w) m = RUNNING \<and>
    (case run m ctx (AIModel_set_status m RUNNING w) of
       (Inr result, w1) \<Rightarrow>
         fst (run_model run now mid ctx w) = Some result \<and>
         AIModel_status (snd (run_model run now mid ctx w)) m = READY \<and>
         AIModel_last_run_time (snd (run_model run now mid ctx w)) m = now
     | (Inl e, w1) \<Rightarrow>
         fst (run_model run now mid ctx w) = None \<and>
         AIModel_status (snd (run_model run now mid ctx w)) m = ERROR)"
  using assms
  by (simp add: run_model_def split: prod.splits sum.splits)

text \<open>
  The theorem at the default language model on its mock path, with a text context: the
  output context is the mock response, and the model is \<open>READY\<close> again.
\<close>

theorem run_model_ready_witness:
  "dict_get (models ready_world) ''default_language_model'' = Some 10 \<and>
   AIModel_status ready_world 10 = READY \<and>
   supports_context_type ready_world 10 (context_type text_context) \<and>
   fst (run_model (LanguageModel_run ''gpt2'' None 5) 7 ''default_language_model''
          text_context ready_world) =
     Some (LanguageModel_output ''gpt2'' 5 text_context
             ''Response to: Hello... (mock output)'') \<and>
   AIModel_status
     (snd (run_model (LanguageModel_run ''gpt2'' None 5) 7 ''default_language_model''
             text_context ready_world)) 10 = READY \<and>
   AIModel_last_run_time
     (snd (run_model (LanguageModel_run ''gpt2'' None 5) 7 ''default_language_model''
             text_context ready_world)) 10 = 7"
proof -
  have a: "dict_get (models ready_world) ''default_language_model'' = Some 10"
    by (simp add: ready_world_simps dict_get_def)
  have b: "AIModel_status ready_world 10 = READY"
    by (simp add: AIModel_status_def AIModel_model_info_def ready_world_simps)
  have c: "supports_context_type ready_world 10 (context_type text_context)"
    by (simp add: supports_context_type_def AIModel_model_info_def ready_world_simps
        default_language_model_info_def text_context_def)
  have d: "LanguageModel_run ''gpt2'' None 5 10 text_context
             (AIModel_set_status 10 RUNNING ready_world) =
           (Inr (LanguageModel_output ''gpt2'' 5 text_context
                   ''Response to: Hello... (mock output)''),
            emit LOG_WARNING ''Using mock language model generation.''
              (emit LOG_INFO ''Running language model on input: Hello...''
                 (AIModel_set_status 10 RUNNING ready_world)))"
    by (simp add: LanguageModel_run_def text_context_def)
  show ?thesis
    using run_model_ready [OF a b c, of "LanguageModel_run ''gpt2'' None 5" 7] a b c
    by (simp add: d)
qed

text \<open>
  Claim C2. Let \<open>m\<close> be registered under \<open>mid\<close> with status \<open>READY\<close>, and let the type of
  the context not be among the supported types of \<open>m\<close>. Then \<^verbatim>\<open>run_model\<close> returns
  \<^verbatim>\<open>None\<close> and the status of \<open>m\<close> is still \<open>READY\<close>. The store it leaves is the old one
  with one error record logged, whatever \<^verbatim>\<open>run\<close> is: \<^verbatim>\<open>run\<close> is not called, and the
  status is never written.
\<close>

theorem run_model_unsupported_context_type:
  assumes "dict_get (models w) mid = Some m"
    and "AIModel_status w m = READY"
    and "\<not> supports_context_type w m (context_type ctx)"
  shows "fst (run_model run now mid ctx w) = None \<and>
    AIModel_status (snd (run_model run now mid ctx w)) m = READY \<and>
    snd (run_model run now mid ctx w) =
      emit LOG_ERROR
        (''Model '' @ mid @ '' does not support context type ''
           @ ContextType_value (context_type ctx)) w \<and>
    run_model run' now' mid ctx w = run_model run now mid ctx w"
  using assms by (simp add: run_model_def)

text \<open>
  The theorem at the initialised default language model, which supports text only, and an
  image context.
\<close>

theorem run_model_unsupported_context_type_witness:
  "dict_get (models ready_world) ''default_language_model'' = Some 10 \<and>
   AIModel_status ready_world 10 = READY \<and>
   \<not> supports_context_type ready_world 10 (context_type image_context) \<and>
   fst (run_model (LanguageModel_run ''gpt2'' None 5) 7 ''default_language_model''
          image_context ready_world) = None \<and>
   AIModel_status
     (snd (run_model (LanguageModel_run ''gpt2'' None 5) 7 ''default_language_model''
             image_context ready_world)) 10 = READY"
proof -
  have a: "dict_get (models ready_world) ''default_language_model'' = Some 10"
    by (simp add: ready_world_simps dict_get_def)
  have b: "AIModel_status ready_world 10 = READY"
    by (simp add: AIModel_status_def AIModel_model_info_def ready_world_simps)
  have c: "\<not> supports_context_type ready_world 10 (context_type image_context)"
    by (simp add: supports_context_type_def AIModel_model_info_def ready_world_simps
        default_language_model_info_def image_context_def)
  show ?thesis
    using run_model_unsupported_context_type
      [OF a b c, of "LanguageModel_run ''gpt2'' None 5" 7] a b c
    by simp
qed

text \<open>
  Claim C3. Let \<open>m\<close> be registered under \<open>mid\<close> with a status other than \<open>READY\<close>. Then
  \<^verbatim>\<open>run_model\<close> returns \<^verbatim>\<open>None\<close> for every context, and the status of \<open>m\<close> after the
  call is its status before: the store is the old one with one error record logged.
\<close>

theorem run_model_not_ready:
  assumes "dict_get (models w) mid = Some m"
    and "AIModel_status w m \<noteq> READY"
  shows "fst (run_model run now mid ctx w) = None \<and>
    AIModel_status (snd (run_model run now mid ctx w)) m = AIModel_status w m \<and>
    snd (run_model run now mid ctx w) =
      emit LOG_ERROR
        (''Model '' @ mid @ '' is not ready. Current status: ''
           @ ModelStatus_value (AIModel_status w m)) w"
  using assms by (simp add: run_model_def)

text \<open>
  The theorem at the registered default language model before its initialisation, whose
  status is \<open>INITIALIZING\<close>.
\<close>

theorem run_model_not_ready_witness:
  "dict_get (models example_world) ''default_language_model'' = Some 10 \<and>
   AIModel_status example_world 10 \<noteq> READY \<and>
   fst (run_model (LanguageModel_run ''gpt2'' None 5) 7 ''default_language_model''
          text_context example_world) = None \<and>
   AIModel_status
     (snd (run_model (LanguageModel_run ''gpt2'' None 5) 7 ''default_language_model''
             text_context example_world)) 10 = INITIALIZING"
proof -
  have a: "dict_get (models example_world) ''default_language_model'' = Some 10"
    by (simp add: example_world_simps dict_get_def)
  have s: "AIModel_status example_world 10 = INITIALIZING"
    by (simp add: AIModel_status_def AIModel_model_info_def example_world_simps
        default_language_model_info_def)
  have b: "AIModel_status example_world 10 \<noteq> READY"
    by (simp add: s)
  show ?thesis
    using run_model_not_ready [OF a b, of "LanguageModel_run ''gpt2'' None 5" 7 text_context]
      a s
    by simp
qed





subsection \<open>Listing models\<close>

text \<open>
  Claim C9 says that \<^verbatim>\<open>list_models\<close> returns snapshots: that a mutation of a returned
  \<^verbatim>\<open>ModelInfo\<close> does not change what the manager observes. In the example store the
  manager's model is object 10; \<^verbatim>\<open>list_models\<close> returns the \<^verbatim>\<open>ModelInfo\<close> at address
  20, and after \<^verbatim>\<open>info.status = ERROR\<close> on it the status of the manager's model is
  \<open>ERROR\<close>, not \<open>READY\<close>.
\<close>

theorem list_models_snapshot_counterexample:
  "get_model ''default_language_model'' ready_world = Some 10 \<and>
   list_models None ready_world = [20] \<and>
   AIModel_status ready_world 10 = READY \<and>
   AIModel_status (ModelInfo_set_status 20 ERROR ready_world) 10 = ERROR \<and>
   AIModel_status (ModelInfo_set_status 20 ERROR ready_world) 10 \<noteq>
     AIModel_status ready_world 10"
  by (simp add: get_model_def dict_get_def list_models_def dict_values_def
      AIModel_status_def AIModel_model_info_def ModelInfo_set_status_def ready_world_simps)

text \<open>
  Claim C9, amended. \<^verbatim>\<open>list_models\<close> returns the \<^verbatim>\<open>model_info\<close> references of the
  registered models, of all of them without a filter and of exactly those whose
  \<^verbatim>\<open>model_type\<close> is the filter otherwise. The objects are shared with the models, not
  copied: a status written to the \<^verbatim>\<open>ModelInfo\<close> of a model \<open>m\<close> is the status of \<open>m\<close>
  afterwards, and every returned reference is the \<^verbatim>\<open>ModelInfo\<close> of a registered model
  that observes such a write.
\<close>

theorem list_models_shares_model_info:
  "list_models mtype w =
     map (\<lambda>m. model_info (model_heap w m))
       (filter (\<lambda>m. mtype = None \<or>
                     Some (ModelInfo.model_type (AIModel_model_info w m)) = mtype)
          (dict_values (models w))) \<and>
   AIModel_status (ModelInfo_set_status (model_info (model_heap w m)) v w) m = v \<and>
   (\<forall>i \<in> set (list_models mtype w).
      \<exists>m' \<in> set (dict_values (models w)).
        model_info (model_heap w m') = i \<and>
        AIModel_status (ModelInfo_set_status i v w) m' = v)"
proof -
  have listed: "list_models mtype w =
     map (\<lambda>m. model_info (model_heap w m))
       (filter (\<lambda>m. mtype = None \<or>
                     Some (ModelInfo.model_type (AIModel_model_info w m)) = mtype)
          (dict_values (models w)))"
    by (cases mtype) (simp_all add: list_models_def Let_def)
  have seen: "AIModel_status (ModelInfo_set_status (model_info (model_heap w m')) v w) m' = v"
    for m'
    by (simp add: AIModel_status_def AIModel_model_info_def ModelInfo_set_status_def)
  have "\<exists>m' \<in> set (dict_values (models w)).
          model_info (model_heap w m') = i \<and>
          AIModel_status (ModelInfo_set_status i v w) m' = v"
    if "i \<in> set (list_models mtype w)" for i
  proof -
    from that listed obtain m' where "m' \<in> set (dict_values (models w))"
      and "i = model_info (model_heap w m')"
      by auto
    with seen [of m'] show ?thesis by auto
  qed
  with listed seen [of m] show ?thesis by blast
qed

text \<open>
  The theorem at the example store: the reference listed is the \<^verbatim>\<open>ModelInfo\<close> of the
  registered model, which observes the status written to it.
\<close>

theorem list_models_shares_model_info_witness:
  "list_models None ready_world = [20] \<and>
   (\<exists>m' \<in> set (dict_values (models ready_world)).
      model_info (model_heap ready_world m') = 20 \<and>
      AIModel_status (ModelInfo_set_status 20 ERROR ready_world) m' = ERROR)"
proof -
  have l: "list_models None ready_world = [20]"
    by (simp add: list_models_def dict_values_def ready_world_simps)
  have "\<forall>i \<in> set (list_models None ready_world).
      \<exists>m' \<in> set (dict_values (models ready_world)).
        model_info (model_heap ready_world m') = i \<and>
        AIModel_status (ModelInfo_set_status i ERROR ready_world) m' = ERROR"
    using list_models_shares_model_info [of None ready_world 10 ERROR] by blast
  with l show ?thesis by simp
qed

end
